theory Spec2Isabelle
  imports Complex_Main "HOL-Library.Word" "HOL-Library.Sublist" "HOL-Library.Log_Nat"
begin

section \<open>Values of the host language\<close>

text \<open>
  A JavaScript number is an IEEE double: a finite value, which is a rational number, an
  infinity, or NaN. The two zeros are not told apart, since the component only compares
  numbers. An arithmetic operation computes the exact result and rounds it to the
  nearest double, ties to the even significand; a result of magnitude \<open>2^1024\<close> or more
  is an infinity. The type has more finite values than there are doubles; what is proved
  below holds for all of them.
\<close>

datatype jsnum = Num rat | PosInf | NegInf | NaN

definition pow2 :: "int \<Rightarrow> rat" where
  "pow2 k = (if 0 \<le> k then 2 ^ nat k else 1 / 2 ^ nat (- k))"

text \<open>The integer \<open>k\<close> with \<open>2^k \<le> a < 2^(k+1)\<close>, for \<open>a > 0\<close>.\<close>

definition ilog2 :: "rat \<Rightarrow> int" where
  "ilog2 a =
     (let (n, d) = quotient_of a; k = bitlen n - bitlen d
      in if pow2 k \<le> a then k else k - 1)"

definition round_half_even :: "rat \<Rightarrow> int" where
  "round_half_even x =
     (let f = \<lfloor>x\<rfloor>; d = x - of_int f
      in if d < 1 / 2 then f else if 1 / 2 < d then f + 1 else if even f then f else f + 1)"

text \<open>
  A double has a significand of 53 bits and its least exponent is \<open>-1074\<close>: the exact
  value is scaled so that its significand has 53 bits (fewer below the normal range),
  and the significand is rounded to an integer.
\<close>

definition round_double :: "rat \<Rightarrow> jsnum" where
  "round_double q =
     (if q = 0 then Num 0
      else
        let a = \<bar>q\<bar>;
            e = max (ilog2 a - 52) (- 1074);
            v = of_int (round_half_even (a / pow2 e)) * pow2 e
        in if pow2 1024 \<le> v then (if 0 < q then PosInf else NegInf)
           else Num (if 0 < q then v else - v))"

text \<open>\<open>x / c\<close> and \<open>x * c\<close> for a literal \<open>c > 0\<close> that is a double.\<close>

fun js_div :: "jsnum \<Rightarrow> rat \<Rightarrow> jsnum" where
  "js_div (Num r) c = round_double (r / c)"
| "js_div PosInf c = PosInf"
| "js_div NegInf c = NegInf"
| "js_div NaN c = NaN"

fun js_mul :: "jsnum \<Rightarrow> rat \<Rightarrow> jsnum" where
  "js_mul (Num r) c = round_double (r * c)"
| "js_mul PosInf c = PosInf"
| "js_mul NegInf c = NegInf"
| "js_mul NaN c = NaN"

text \<open>\<open>x > c\<close> and \<open>x < c\<close> for a literal \<open>c\<close> that is a double; every comparison with NaN is false.\<close>

fun js_gt :: "jsnum \<Rightarrow> rat \<Rightarrow> bool" where
  "js_gt (Num r) c = (r > c)"
| "js_gt PosInf c = True"
| "js_gt NegInf c = False"
| "js_gt NaN c = False"

fun js_lt :: "jsnum \<Rightarrow> rat \<Rightarrow> bool" where
  "js_lt (Num r) c = (r < c)"
| "js_lt PosInf c = False"
| "js_lt NegInf c = True"
| "js_lt NaN c = False"

text \<open>
  A JavaScript string is a sequence of UTF-16 code units. \<open>js\<close> embeds an ASCII literal.
\<close>

type_synonym jsstring = "16 word list"

definition js :: "string \<Rightarrow> jsstring" where
  "js s = map (\<lambda>c. of_nat (of_char c)) s"

text \<open>
  \<open>String.prototype.trim\<close> strips the code units of ECMAScript's WhiteSpace and
  LineTerminator productions (all of them lie in the basic plane) from both ends.
\<close>

definition isWhiteSpace :: "16 word \<Rightarrow> bool" where
  "isWhiteSpace u \<longleftrightarrow>
     u = 0x0009 \<or> u = 0x000A \<or> u = 0x000B \<or> u = 0x000C \<or> u = 0x000D \<or> u = 0x0020 \<or>
     u = 0x00A0 \<or> u = 0x1680 \<or> (0x2000 \<le> u \<and> u \<le> 0x200A) \<or> u = 0x2028 \<or>
     u = 0x2029 \<or> u = 0x202F \<or> u = 0x205F \<or> u = 0x3000 \<or> u = 0xFEFF"

definition trim :: "jsstring \<Rightarrow> jsstring" where
  "trim s = rev (dropWhile isWhiteSpace (rev (dropWhile isWhiteSpace s)))"

section \<open>Data model (App.tsx, lines 4 to 26)\<close>

record EmotionalState =
  anger :: jsnum
  sadness :: jsnum

text \<open>The \<open>timestamp\<close> of a message is the instant \<open>new Date()\<close> returned, in milliseconds.\<close>

record Message =
  "text" :: jsstring
  isUser :: bool
  timestamp :: nat
  emotionalState :: "EmotionalState option"

record EmotionalParameters =
  valence :: jsnum
  arousal :: jsnum
  selectionThreshold :: jsnum
  resolution :: jsnum
  goalDirectedness :: jsnum
  securingRate :: jsnum

text \<open>\<open>keyof EmotionalParameters\<close>.\<close>

datatype param =
  Valence | Arousal | SelectionThreshold | Resolution | GoalDirectedness | SecuringRate

fun getField :: "param \<Rightarrow> EmotionalParameters \<Rightarrow> jsnum" where
  "getField Valence p = valence p"
| "getField Arousal p = arousal p"
| "getField SelectionThreshold p = selectionThreshold p"
| "getField Resolution p = resolution p"
| "getField GoalDirectedness p = goalDirectedness p"
| "getField SecuringRate p = securingRate p"

text \<open>The object literal \<open>{...prev, [param]: value}\<close>.\<close>

fun setField :: "param \<Rightarrow> jsnum \<Rightarrow> EmotionalParameters \<Rightarrow> EmotionalParameters" where
  "setField Valence v prev = prev\<lparr>valence := v\<rparr>"
| "setField Arousal v prev = prev\<lparr>arousal := v\<rparr>"
| "setField SelectionThreshold v prev = prev\<lparr>selectionThreshold := v\<rparr>"
| "setField Resolution v prev = prev\<lparr>resolution := v\<rparr>"
| "setField GoalDirectedness v prev = prev\<lparr>goalDirectedness := v\<rparr>"
| "setField SecuringRate v prev = prev\<lparr>securingRate := v\<rparr>"

section \<open>Component state (App.tsx, lines 29 to 44)\<close>

text \<open>One field for each \<open>useState\<close> cell of the component.\<close>

record AppState =
  messages :: "Message list"
  inputMessage :: jsstring
  showParameters :: bool
  emotionalState :: EmotionalState
  isProcessing :: bool
  backendError :: bool
  parameters :: EmotionalParameters

text \<open>The literals \<open>3.2\<close> and \<open>4.8\<close> denote the doubles nearest to them.\<close>

definition initialParameters :: EmotionalParameters where
  "initialParameters =
     \<lparr>valence = Num (9 / 2), arousal = Num 5, selectionThreshold = round_double (16 / 5),
      resolution = round_double (24 / 5), goalDirectedness = Num 6,
      securingRate = Num (7 / 2)\<rparr>"

definition initialState :: AppState where
  "initialState =
     \<lparr>messages = [], inputMessage = [], showParameters = False,
      emotionalState = \<lparr>anger = Num 1, sadness = Num 1\<rparr>,
      isProcessing = False, backendError = False, parameters = initialParameters\<rparr>"

section \<open>Outcome of a request\<close>

text \<open>
  What an awaited \<open>fetch\<close> followed by \<open>response.json()\<close> can produce: \<open>fetch\<close> rejects
  (\<open>NetworkError\<close>), the response has \<open>ok = false\<close> and the code throws (\<open>NotOk\<close>),
  \<open>response.json()\<close> rejects because the body is not JSON (\<open>JsonError\<close>), or the body
  decodes to \<open>data\<close>. The first three all reach the \<open>catch\<close> block. The decoded value
  is taken at the type the source gives it.
\<close>

datatype 'a fetch_outcome = NetworkError | NotOk | JsonError | Body 'a

fun failed :: "'a fetch_outcome \<Rightarrow> bool" where
  "failed (Body d) = False"
| "failed r = True"

record ReplyData =
  reply :: jsstring

section \<open>Handlers\<close>

subsection \<open>calculateEmotions (lines 58 to 77)\<close>

text \<open>
  An \<open>async\<close> function runs in two parts, one before its \<open>await\<close> and one after the
  awaited promise has settled; other handlers may run in between. The first part clears
  the error flag and sends the parameters of the render that started the effect.
\<close>

definition calculateEmotions_issue :: "AppState \<Rightarrow> AppState \<times> EmotionalParameters" where
  "calculateEmotions_issue s = (s\<lparr>backendError := False\<rparr>, parameters s)"

fun calculateEmotions_settle :: "EmotionalState fetch_outcome \<Rightarrow> AppState \<Rightarrow> AppState" where
  "calculateEmotions_settle (Body data) s = s\<lparr>emotionalState := data\<rparr>"
| "calculateEmotions_settle NetworkError s = s\<lparr>backendError := True\<rparr>"
| "calculateEmotions_settle NotOk s = s\<lparr>backendError := True\<rparr>"
| "calculateEmotions_settle JsonError s = s\<lparr>backendError := True\<rparr>"

text \<open>The whole call when nothing else happens while the request is outstanding.\<close>

definition calculateEmotions :: "EmotionalState fetch_outcome \<Rightarrow> AppState \<Rightarrow> AppState" where
  "calculateEmotions r s = calculateEmotions_settle r (fst (calculateEmotions_issue s))"

subsection \<open>handleParameterChange (lines 79 to 84)\<close>

definition handleParameterChange :: "param \<Rightarrow> jsnum \<Rightarrow> AppState \<Rightarrow> AppState" where
  "handleParameterChange p v s = s\<lparr>parameters := setField p v (parameters s)\<rparr>"

subsection \<open>getEmotionalStateDescription (lines 86 to 96)\<close>

definition getEmotionalStateDescription :: "EmotionalState \<Rightarrow> jsstring" where
  "getEmotionalStateDescription state =
     (let normalizedAnger = js_mul (js_div (anger state) 7) 5;
          normalizedSadness = js_mul (js_div (sadness state) 7) 5
      in if js_gt normalizedAnger 4 then js ''Very Agitated''
         else if js_gt normalizedAnger 3 then js ''Frustrated''
         else if js_gt normalizedSadness 4 then js ''Very Sad''
         else if js_gt normalizedSadness 3 then js ''Melancholic''
         else if js_lt normalizedAnger 2 \<and> js_lt normalizedSadness 2 then js ''Calm''
         else js ''Neutral'')"

subsection \<open>handleSubmit (lines 98 to 145)\<close>

text \<open>
  What the second part of \<open>handleSubmit\<close> still reads after the \<open>await\<close>: the constants
  of the render in which the form was submitted.
\<close>

record SubmitClosure =
  c_inputMessage :: jsstring
  c_parameters :: EmotionalParameters
  c_emotionalState :: EmotionalState

definition fallbackText :: jsstring where
  "fallbackText =
     js ''I'm currently unable to process messages. Please ensure the backend server is running.''"

text \<open>
  The part before the \<open>await\<close>, at instant \<open>now\<close>. It returns the next state and, when
  the submission passes the guard of line 100, the request it has sent.
\<close>

definition handleSubmit_begin :: "nat \<Rightarrow> AppState \<Rightarrow> AppState \<times> SubmitClosure option" where
  "handleSubmit_begin now s =
     (if trim (inputMessage s) = [] \<or> isProcessing s then (s, None)
      else
        let newMessage = \<lparr>text = inputMessage s, isUser = True, timestamp = now,
                          Message.emotionalState = None\<rparr>
        in (s\<lparr>isProcessing := True,
              messages := messages s @ [newMessage],
              inputMessage := [],
              backendError := False\<rparr>,
            Some \<lparr>c_inputMessage = inputMessage s, c_parameters = parameters s,
                  c_emotionalState = emotionalState s\<rparr>))"

text \<open>The part after the \<open>await\<close>: \<open>try\<close> or \<open>catch\<close>, then \<open>finally\<close>.\<close>

fun handleSubmit_settle ::
  "SubmitClosure \<Rightarrow> ReplyData fetch_outcome \<Rightarrow> nat \<Rightarrow> AppState \<Rightarrow> AppState" where
  "handleSubmit_settle c (Body data) now s =
     s\<lparr>messages := messages s @
          [\<lparr>text = reply data, isUser = False, timestamp = now,
            Message.emotionalState = Some (c_emotionalState c)\<rparr>],
       isProcessing := False\<rparr>"
| "handleSubmit_settle c r now s =
     s\<lparr>backendError := True,
       messages := messages s @
          [\<lparr>text = fallbackText, isUser = False, timestamp = now,
            Message.emotionalState = Some (c_emotionalState c)\<rparr>],
       isProcessing := False\<rparr>"

text \<open>The whole call when nothing else happens while the request is outstanding.\<close>

definition handleSubmit :: "nat \<Rightarrow> ReplyData fetch_outcome \<Rightarrow> nat \<Rightarrow> AppState \<Rightarrow> AppState" where
  "handleSubmit now r later s =
     (case handleSubmit_begin now s of
        (s', None) \<Rightarrow> s'
      | (s', Some c) \<Rightarrow> handleSubmit_settle c r later s')"

subsection \<open>The view's gate (lines 278 and 287)\<close>

text \<open>The \<open>disabled\<close> attribute of the text input and of the submit button.\<close>

definition controlsDisabled :: "AppState \<Rightarrow> bool" where
  "controlsDisabled s \<longleftrightarrow> isProcessing s \<or> backendError s"

section \<open>The component with its outstanding requests\<close>

text \<open>
  The component state together with the requests that have been sent and have not yet
  settled: the bodies of the calls to \<open>/calculate-emotions\<close>, oldest first, and the
  closures of the calls to \<open>/send-message\<close>. Every handler reads the state of the latest
  render, and its updates are rendered before the next event.
\<close>

record World =
  app :: AppState
  emotionCalls :: "EmotionalParameters list"
  sendCalls :: "SubmitClosure list"

datatype Event =
    ParameterChange param jsnum
  | EmotionsSettled nat "EmotionalState fetch_outcome"
  | InputChange jsstring
  | ToggleParameters
  | Submit nat
  | SendSettled nat "ReplyData fetch_outcome" nat

definition without :: "nat \<Rightarrow> 'a list \<Rightarrow> 'a list" where
  "without i xs = take i xs @ drop (Suc i) xs"

text \<open>
  A parameter change always stores a new object, so the effect of line 54 runs after it
  and sends a request with the new parameters. \<open>EmotionsSettled i r\<close> and
  \<open>SendSettled i r now\<close> settle the \<open>i\<close>-th outstanding request; they do nothing when
  there is no such request.
\<close>

fun step :: "World \<Rightarrow> Event \<Rightarrow> World" where
  "step w (ParameterChange p v) =
     (let (s, body) = calculateEmotions_issue (handleParameterChange p v (app w))
      in w\<lparr>app := s, emotionCalls := emotionCalls w @ [body]\<rparr>)"
| "step w (EmotionsSettled i r) =
     (if i < length (emotionCalls w)
      then w\<lparr>app := calculateEmotions_settle r (app w),
             emotionCalls := without i (emotionCalls w)\<rparr>
      else w)"
| "step w (InputChange v) = w\<lparr>app := (app w)\<lparr>inputMessage := v\<rparr>\<rparr>"
| "step w ToggleParameters =
     w\<lparr>app := (app w)\<lparr>showParameters := \<not> showParameters (app w)\<rparr>\<rparr>"
| "step w (Submit now) =
     (case handleSubmit_begin now (app w) of
        (s, None) \<Rightarrow> w\<lparr>app := s\<rparr>
      | (s, Some c) \<Rightarrow> w\<lparr>app := s, sendCalls := sendCalls w @ [c]\<rparr>)"
| "step w (SendSettled i r now) =
     (if i < length (sendCalls w)
      then w\<lparr>app := handleSubmit_settle (sendCalls w ! i) r now (app w),
             sendCalls := without i (sendCalls w)\<rparr>
      else w)"

definition run :: "World \<Rightarrow> Event list \<Rightarrow> World" where
  "run w evs = foldl step w evs"

text \<open>
  An event of \<open>step\<close> is the call of a handler. The rendered form calls the submit
  handler only while its input and its button are enabled: a click on a disabled button
  and the enter key in a disabled input submit nothing.
\<close>

definition submitForm :: "nat \<Rightarrow> World \<Rightarrow> World" where
  "submitForm now w = (if controlsDisabled (app w) then w else step w (Submit now))"

text \<open>After the first render the effect of line 54 has sent one request.\<close>

definition initialWorld :: World where
  "initialWorld =
     (let (s, body) = calculateEmotions_issue initialState
      in \<lparr>app = s, emotionCalls = [body], sendCalls = []\<rparr>)"

section \<open>Notions used to state the properties\<close>

text \<open>The normalisation of a channel to the scale of five, as the specification names it.\<close>

definition normalized :: "jsnum \<Rightarrow> jsnum" where
  "normalized raw = js_mul (js_div raw 7) 5"

definition labels :: "jsstring list" where
  "labels = [js ''Very Agitated'', js ''Frustrated'', js ''Very Sad'', js ''Melancholic'',
             js ''Calm'', js ''Neutral'']"

text \<open>
  The events that neither submit the form nor settle a submission: parameter changes,
  settled recomputations, typing, and the parameter panel.
\<close>

fun background :: "Event \<Rightarrow> bool" where
  "background (Submit now) = False"
| "background (SendSettled i r now) = False"
| "background ev = True"

text \<open>No submission is outstanding.\<close>

definition idle :: "World \<Rightarrow> bool" where
  "idle w \<longleftrightarrow> \<not> isProcessing (app w) \<and> sendCalls w = []"

text \<open>The busy flag is set exactly while one submission is outstanding.\<close>

definition consistent :: "World \<Rightarrow> bool" where
  "consistent w \<longleftrightarrow>
     (isProcessing (app w) \<longleftrightarrow> sendCalls w \<noteq> []) \<and> length (sendCalls w) \<le> 1"

text \<open>
  A successful submission with what surrounds it: events in the background, the text
  typed, the submission, more events in the background while the request is
  outstanding, and the reply.
\<close>

record Round =
  r_before :: "Event list"
  r_text :: jsstring
  r_submitted :: nat
  r_during :: "Event list"
  r_reply :: jsstring
  r_delivered :: nat

definition events_of :: "Round \<Rightarrow> Event list" where
  "events_of r =
     r_before r @ [InputChange (r_text r), Submit (r_submitted r)] @ r_during r @
     [SendSettled 0 (Body \<lparr>reply = r_reply r\<rparr>) (r_delivered r)]"

definition wellFormed :: "Round \<Rightarrow> bool" where
  "wellFormed r \<longleftrightarrow>
     trim (r_text r) \<noteq> [] \<and> list_all background (r_before r) \<and>
     list_all background (r_during r)"

text \<open>Who wrote an entry of the log, and what it says.\<close>

definition entry :: "Message \<Rightarrow> bool \<times> jsstring" where
  "entry m = (isUser m, text m)"

definition exchanges :: "Round list \<Rightarrow> (bool \<times> jsstring) list" where
  "exchanges rs = concat (map (\<lambda>r. [(True, r_text r), (False, r_reply r)]) rs)"

text \<open>An entry carries a snapshot exactly when the assistant wrote it.\<close>

definition stamped :: "Message \<Rightarrow> bool" where
  "stamped m \<longleftrightarrow> (isUser m \<longleftrightarrow> Message.emotionalState m = None)"

subsection \<open>Sample runs\<close>

text \<open>The component after the user has typed two letters.\<close>

definition typedHi :: World where
  "typedHi = step initialWorld (InputChange (js ''hi''))"

definition firstRound :: Round where
  "firstRound =
     \<lparr>r_before = [], r_text = js ''hi'', r_submitted = 1,
      r_during = [EmotionsSettled 0 (Body \<lparr>anger = Num 6, sadness = Num 2\<rparr>)],
      r_reply = js ''hello'', r_delivered = 2\<rparr>"

definition secondRound :: Round where
  "secondRound =
     \<lparr>r_before = [ParameterChange Valence (Num 2)], r_text = js ''bye'', r_submitted = 3,
      r_during = [], r_reply = js ''ciao'', r_delivered = 4\<rparr>"

section \<open>The classifier\<close>

lemma distinct_labels: "distinct labels"
  by (simp add: labels_def js_def)

lemma description_in_labels: "getEmotionalStateDescription st \<in> set labels"
  by (simp add: getEmotionalStateDescription_def labels_def Let_def)

text \<open>The normalised values of some readings, as the doubles the code computes.\<close>

lemma normalized_0: "normalized (Num 0) = Num 0"
  by code_simp

lemma normalized_1: "normalized (Num 1) = Num (3216856876693211 / 4503599627370496)"
  by code_simp

lemma normalized_2: "normalized (Num 2) = Num (3216856876693211 / 2251799813685248)"
  by code_simp

lemma normalized_3: "normalized (Num 3) = Num (4825285315039817 / 2251799813685248)"
  by code_simp

lemma normalized_5: "normalized (Num 5) = Num (8042142191733029 / 2251799813685248)"
  by code_simp

lemma normalized_6: "normalized (Num 6) = Num (4825285315039817 / 1125899906842624)"
  by code_simp

lemma normalized_7: "normalized (Num 7) = Num 5"
  by code_simp

lemmas normalized_samples =
  normalized_0 normalized_1 normalized_2 normalized_3 normalized_5 normalized_6 normalized_7

text \<open>
  Rounding decides the label next to a threshold. The double written
  \<open>5.6000000000000005\<close> is normalised to exactly 4 and the double after it to more than
  4; the double nearest to \<open>4.2\<close> is normalised to exactly 3, and the double nearest to
  \<open>2.8\<close> to less than 2.
\<close>

lemma normalized_above_4:
  "normalized (Num (6305039478318695 / 1125899906842624)) = Num 4"
  by code_simp

lemma normalized_next_above_4:
  "normalized (Num (788129934789837 / 140737488355328)) = Num (4503599627370497 / 1125899906842624)"
  by code_simp

lemma normalized_at_3:
  "normalized (Num (4728779608739021 / 1125899906842624)) = Num 3"
  by code_simp

lemma normalized_below_2:
  "normalized (Num (3152519739159347 / 1125899906842624)) = Num (9007199254740991 / 4503599627370496)"
  by code_simp

lemmas normalized_near_thresholds =
  normalized_above_4 normalized_next_above_4 normalized_at_3 normalized_below_2

lemma description_near_thresholds:
  "getEmotionalStateDescription
     \<lparr>anger = Num (6305039478318695 / 1125899906842624), sadness = Num 0\<rparr> = js ''Frustrated''"
  "getEmotionalStateDescription
     \<lparr>anger = Num (788129934789837 / 140737488355328), sadness = Num 0\<rparr> =
     js ''Very Agitated''"
  "getEmotionalStateDescription
     \<lparr>anger = Num (4728779608739021 / 1125899906842624), sadness = Num 0\<rparr> = js ''Neutral''"
  "getEmotionalStateDescription
     \<lparr>anger = Num (3152519739159347 / 1125899906842624), sadness = Num 0\<rparr> = js ''Calm''"
  using normalized_near_thresholds normalized_0
  by (simp_all add: getEmotionalStateDescription_def normalized_def)

text \<open>A reading that is not a number on both channels is classified as neutral.\<close>

lemma description_NaN:
  "getEmotionalStateDescription \<lparr>anger = NaN, sadness = NaN\<rparr> = js ''Neutral''"
  by (simp add: getEmotionalStateDescription_def)

text \<open>
  C1. For every emotional state the classifier returns one of the six labels, which are
  pairwise different, and the label is decided by the first test that succeeds on the
  normalised channels: anger above 4, anger above 3, sadness above 4, sadness above 3,
  both below 2, and neutral otherwise. Anger 7 with sadness 0 is very agitated; anger 2
  with sadness 2 is calm.
\<close>

theorem getEmotionalStateDescription_priority:
  "getEmotionalStateDescription st \<in> set labels \<and>
   distinct labels \<and>
   (js_gt (normalized (anger st)) 4 \<longrightarrow>
      getEmotionalStateDescription st = js ''Very Agitated'') \<and>
   (\<not> js_gt (normalized (anger st)) 4 \<and> js_gt (normalized (anger st)) 3 \<longrightarrow>
      getEmotionalStateDescription st = js ''Frustrated'') \<and>
   (\<not> js_gt (normalized (anger st)) 4 \<and> \<not> js_gt (normalized (anger st)) 3 \<and>
    js_gt (normalized (sadness st)) 4 \<longrightarrow>
      getEmotionalStateDescription st = js ''Very Sad'') \<and>
   (\<not> js_gt (normalized (anger st)) 4 \<and> \<not> js_gt (normalized (anger st)) 3 \<and>
    \<not> js_gt (normalized (sadness st)) 4 \<and> js_gt (normalized (sadness st)) 3 \<longrightarrow>
      getEmotionalStateDescription st = js ''Melancholic'') \<and>
   (\<not> js_gt (normalized (anger st)) 4 \<and> \<not> js_gt (normalized (anger st)) 3 \<and>
    \<not> js_gt (normalized (sadness st)) 4 \<and> \<not> js_gt (normalized (sadness st)) 3 \<and>
    js_lt (normalized (anger st)) 2 \<and> js_lt (normalized (sadness st)) 2 \<longrightarrow>
      getEmotionalStateDescription st = js ''Calm'') \<and>
   (\<not> js_gt (normalized (anger st)) 4 \<and> \<not> js_gt (normalized (anger st)) 3 \<and>
    \<not> js_gt (normalized (sadness st)) 4 \<and> \<not> js_gt (normalized (sadness st)) 3 \<and>
    \<not> (js_lt (normalized (anger st)) 2 \<and> js_lt (normalized (sadness st)) 2) \<longrightarrow>
      getEmotionalStateDescription st = js ''Neutral'') \<and>
   getEmotionalStateDescription \<lparr>anger = Num 7, sadness = Num 0\<rparr> = js ''Very Agitated'' \<and>
   getEmotionalStateDescription \<lparr>anger = Num 2, sadness = Num 2\<rparr> = js ''Calm''"
proof -
  have ex1: "getEmotionalStateDescription \<lparr>anger = Num 7, sadness = Num 0\<rparr> = js ''Very Agitated''"
    using normalized_samples by (simp add: getEmotionalStateDescription_def normalized_def)
  have ex2: "getEmotionalStateDescription \<lparr>anger = Num 2, sadness = Num 2\<rparr> = js ''Calm''"
    using normalized_samples by (simp add: getEmotionalStateDescription_def normalized_def)
  show ?thesis
    using description_in_labels [of st] distinct_labels ex1 ex2
    by (simp add: getEmotionalStateDescription_def normalized_def Let_def)
qed

theorem getEmotionalStateDescription_priority_witness:
  "getEmotionalStateDescription \<lparr>anger = Num 6, sadness = Num 0\<rparr> = js ''Very Agitated'' \<and>
   getEmotionalStateDescription \<lparr>anger = Num 5, sadness = Num 7\<rparr> = js ''Frustrated'' \<and>
   getEmotionalStateDescription \<lparr>anger = Num 0, sadness = Num 7\<rparr> = js ''Very Sad'' \<and>
   getEmotionalStateDescription \<lparr>anger = Num 0, sadness = Num 5\<rparr> = js ''Melancholic'' \<and>
   getEmotionalStateDescription \<lparr>anger = Num 1, sadness = Num 1\<rparr> = js ''Calm'' \<and>
   getEmotionalStateDescription \<lparr>anger = Num 3, sadness = Num 1\<rparr> = js ''Neutral''"
  using getEmotionalStateDescription_priority [of "\<lparr>anger = Num 6, sadness = Num 0\<rparr>"]
    getEmotionalStateDescription_priority [of "\<lparr>anger = Num 5, sadness = Num 7\<rparr>"]
    getEmotionalStateDescription_priority [of "\<lparr>anger = Num 0, sadness = Num 7\<rparr>"]
    getEmotionalStateDescription_priority [of "\<lparr>anger = Num 0, sadness = Num 5\<rparr>"]
    getEmotionalStateDescription_priority [of "\<lparr>anger = Num 1, sadness = Num 1\<rparr>"]
    getEmotionalStateDescription_priority [of "\<lparr>anger = Num 3, sadness = Num 1\<rparr>"]
  by (simp add: normalized_samples)

section \<open>Requests that fail\<close>

lemma failed_cases: "failed r \<longleftrightarrow> r = NetworkError \<or> r = NotOk \<or> r = JsonError"
  by (cases r) simp_all

lemma calculateEmotions_settle_failed:
  "failed r \<Longrightarrow> calculateEmotions_settle r s = s\<lparr>backendError := True\<rparr>"
  by (cases r) simp_all

lemma handleSubmit_settle_failed:
  "failed r \<Longrightarrow> handleSubmit_settle c r now s =
     s\<lparr>backendError := True,
       messages := messages s @
          [\<lparr>text = fallbackText, isUser = False, timestamp = now,
            Message.emotionalState = Some (c_emotionalState c)\<rparr>],
       isProcessing := False\<rparr>"
  by (cases r) simp_all

section \<open>Blank input\<close>

lemma trim_empty_iff: "trim s = [] \<longleftrightarrow> (\<forall>u\<in>set s. isWhiteSpace u)"
proof -
  have "(\<forall>u\<in>set (dropWhile isWhiteSpace s). isWhiteSpace u) \<longleftrightarrow> (\<forall>u\<in>set s. isWhiteSpace u)"
  proof
    assume a: "\<forall>u\<in>set (dropWhile isWhiteSpace s). isWhiteSpace u"
    have "set s = set (takeWhile isWhiteSpace s) \<union> set (dropWhile isWhiteSpace s)"
      by (metis set_append takeWhile_dropWhile_id)
    with a show "\<forall>u\<in>set s. isWhiteSpace u"
      by (auto dest: set_takeWhileD)
  next
    assume "\<forall>u\<in>set s. isWhiteSpace u"
    then show "\<forall>u\<in>set (dropWhile isWhiteSpace s). isWhiteSpace u"
      by (auto dest: set_dropWhileD)
  qed
  then show ?thesis by (simp add: trim_def)
qed

lemma trim_hi: "trim (js ''hi'') \<noteq> []"
  by (simp add: trim_def js_def isWhiteSpace_def)

section \<open>Runs of the component\<close>

lemma run_Nil [simp]: "run w [] = w"
  by (simp add: run_def)

lemma run_Cons [simp]: "run w (ev # evs) = run (step w ev) evs"
  by (simp add: run_def)

lemma run_append [simp]: "run w (xs @ ys) = run (run w xs) ys"
  by (simp add: run_def)

lemma calculateEmotions_settle_frame:
  "messages (calculateEmotions_settle r s) = messages s"
  "isProcessing (calculateEmotions_settle r s) = isProcessing s"
  "inputMessage (calculateEmotions_settle r s) = inputMessage s"
  "parameters (calculateEmotions_settle r s) = parameters s"
  "showParameters (calculateEmotions_settle r s) = showParameters s"
  by (cases r; simp)+

lemma background_step:
  assumes "background ev"
  shows "messages (app (step w ev)) = messages (app w)"
    and "isProcessing (app (step w ev)) = isProcessing (app w)"
    and "sendCalls (step w ev) = sendCalls w"
  using assms
  by (cases ev; simp add: calculateEmotions_issue_def handleParameterChange_def
        calculateEmotions_settle_frame)+

lemma background_run:
  assumes "list_all background evs"
  shows "messages (app (run w evs)) = messages (app w)"
    and "isProcessing (app (run w evs)) = isProcessing (app w)"
    and "sendCalls (run w evs) = sendCalls w"
  using assms
  by (induction evs arbitrary: w; simp add: background_step)+

lemma submit_accepted:
  assumes "\<not> isProcessing (app w)" and "trim (inputMessage (app w)) \<noteq> []"
  shows "step w (Submit now) =
           w\<lparr>app := (app w)\<lparr>isProcessing := True,
                 messages := messages (app w) @
                   [\<lparr>text = inputMessage (app w), isUser = True, timestamp = now,
                     Message.emotionalState = None\<rparr>],
                 inputMessage := [],
                 backendError := False\<rparr>,
              sendCalls := sendCalls w @
                [\<lparr>c_inputMessage = inputMessage (app w), c_parameters = parameters (app w),
                  c_emotionalState = emotionalState (app w)\<rparr>]\<rparr>"
  using assms by (simp add: handleSubmit_begin_def Let_def)

text \<open>One turn: a submission from an idle component, anything in the background, then the settlement.\<close>

lemma turn:
  assumes "idle w" and "trim (inputMessage (app w)) \<noteq> []" and "list_all background during"
  shows "messages (app (run w ([Submit t1] @ during @ [SendSettled 0 r t2]))) =
           messages (app w) @
             [\<lparr>text = inputMessage (app w), isUser = True, timestamp = t1,
               Message.emotionalState = None\<rparr>,
              \<lparr>text = (case r of Body d \<Rightarrow> reply d | _ \<Rightarrow> fallbackText), isUser = False,
               timestamp = t2, Message.emotionalState = Some (emotionalState (app w))\<rparr>]"
    and "idle (run w ([Submit t1] @ during @ [SendSettled 0 r t2]))"
    and "failed r \<Longrightarrow> backendError (app (run w ([Submit t1] @ during @ [SendSettled 0 r t2])))"
proof -
  let ?w1 = "step w (Submit t1)"
  let ?w2 = "run ?w1 during"
  let ?c = "\<lparr>c_inputMessage = inputMessage (app w), c_parameters = parameters (app w),
             c_emotionalState = emotionalState (app w)\<rparr>"
  have sa: "?w1 = w\<lparr>app := (app w)\<lparr>isProcessing := True,
                 messages := messages (app w) @
                   [\<lparr>text = inputMessage (app w), isUser = True, timestamp = t1,
                     Message.emotionalState = None\<rparr>],
                 inputMessage := [],
                 backendError := False\<rparr>,
              sendCalls := sendCalls w @ [?c]\<rparr>"
    using assms(1,2) by (intro submit_accepted) (simp_all add: idle_def)
  have w1: "messages (app ?w1) = messages (app w) @
      [\<lparr>text = inputMessage (app w), isUser = True, timestamp = t1,
        Message.emotionalState = None\<rparr>]"
      "sendCalls ?w1 = [?c]" "isProcessing (app ?w1)"
    unfolding sa using assms(1) by (simp_all add: idle_def)
  have w2: "messages (app ?w2) = messages (app ?w1)" "sendCalls ?w2 = [?c]"
    using assms(3) w1 by (simp_all add: background_run)
  have fin: "run w ([Submit t1] @ during @ [SendSettled 0 r t2]) =
      ?w2\<lparr>app := handleSubmit_settle ?c r t2 (app ?w2), sendCalls := []\<rparr>"
    using w2 by (simp add: without_def)
  show "messages (app (run w ([Submit t1] @ during @ [SendSettled 0 r t2]))) =
           messages (app w) @
             [\<lparr>text = inputMessage (app w), isUser = True, timestamp = t1,
               Message.emotionalState = None\<rparr>,
              \<lparr>text = (case r of Body d \<Rightarrow> reply d | _ \<Rightarrow> fallbackText), isUser = False,
               timestamp = t2, Message.emotionalState = Some (emotionalState (app w))\<rparr>]"
    unfolding fin using w1 w2 by (cases r) simp_all
  show "idle (run w ([Submit t1] @ during @ [SendSettled 0 r t2]))"
    unfolding fin by (cases r) (simp_all add: idle_def)
  show "failed r \<Longrightarrow> backendError (app (run w ([Submit t1] @ during @ [SendSettled 0 r t2])))"
    unfolding fin by (cases r) simp_all
qed

lemma round:
  assumes "idle w" and "trim (r_text r) \<noteq> []"
    and "list_all background (r_before r)" and "list_all background (r_during r)"
  shows "map entry (messages (app (run w (events_of r)))) =
           map entry (messages (app w)) @ [(True, r_text r), (False, r_reply r)]"
    and "idle (run w (events_of r))"
proof -
  let ?w0 = "step (run w (r_before r)) (InputChange (r_text r))"
  let ?rest = "[Submit (r_submitted r)] @ r_during r @
     [SendSettled 0 (Body \<lparr>reply = r_reply r\<rparr>) (r_delivered r)]"
  have split: "run w (events_of r) = run ?w0 ?rest"
    by (simp add: events_of_def)
  have w0: "idle ?w0" "inputMessage (app ?w0) = r_text r"
    "messages (app ?w0) = messages (app w)"
    using assms(1,3) by (simp_all add: idle_def background_run)
  from w0 assms(2) have ne: "trim (inputMessage (app ?w0)) \<noteq> []" by simp
  show "map entry (messages (app (run w (events_of r)))) =
           map entry (messages (app w)) @ [(True, r_text r), (False, r_reply r)]"
    unfolding split turn(1) [OF w0(1) ne assms(4)] using w0(2,3) by (simp add: entry_def)
  show "idle (run w (events_of r))"
    unfolding split by (rule turn(2) [OF w0(1) ne assms(4)])
qed

lemma rounds:
  assumes "idle w"
    and "\<forall>r\<in>set rs. trim (r_text r) \<noteq> [] \<and> list_all background (r_before r) \<and>
           list_all background (r_during r)"
  shows "map entry (messages (app (run w (concat (map events_of rs))))) =
           map entry (messages (app w)) @
           concat (map (\<lambda>r. [(True, r_text r), (False, r_reply r)]) rs) \<and>
         idle (run w (concat (map events_of rs)))"
  using assms
proof (induction rs arbitrary: w)
  case Nil
  then show ?case by simp
next
  case (Cons r rs)
  let ?w1 = "run w (events_of r)"
  from Cons.prems have r: "trim (r_text r) \<noteq> []" "list_all background (r_before r)"
      "list_all background (r_during r)"
    by simp_all
  have i1: "idle ?w1" and m1: "map entry (messages (app ?w1)) =
      map entry (messages (app w)) @ [(True, r_text r), (False, r_reply r)]"
    using round [OF Cons.prems(1) r] by simp_all
  from Cons.prems(2) have rest: "\<forall>r\<in>set rs. trim (r_text r) \<noteq> [] \<and>
      list_all background (r_before r) \<and> list_all background (r_during r)"
    by simp
  from Cons.IH [OF i1 rest] m1 show ?case by simp
qed

lemma step_prefix: "prefix (messages (app w)) (messages (app (step w ev)))"
proof (cases ev)
  case (Submit now)
  then show ?thesis by (simp add: handleSubmit_begin_def Let_def)
next
  case (SendSettled i r now)
  then show ?thesis by (cases r) simp_all
qed (simp_all add: calculateEmotions_issue_def handleParameterChange_def
      calculateEmotions_settle_frame)

lemma run_prefix: "prefix (messages (app w)) (messages (app (run w evs)))"
proof (induction evs arbitrary: w)
  case Nil
  show ?case by simp
next
  case (Cons ev evs)
  have "prefix (messages (app w)) (messages (app (step w ev)))" by (rule step_prefix)
  also have "prefix \<dots> (messages (app (run (step w ev) evs)))" by (rule Cons.IH)
  finally show ?case by simp
qed

lemma step_stamped:
  assumes "\<forall>m\<in>set (messages (app w)). stamped m"
  shows "\<forall>m\<in>set (messages (app (step w ev))). stamped m"
proof (cases ev)
  case (Submit now)
  with assms show ?thesis by (auto simp: handleSubmit_begin_def Let_def stamped_def)
next
  case (SendSettled i r now)
  with assms show ?thesis by (cases r) (auto simp: stamped_def)
qed (use assms in \<open>simp_all add: calculateEmotions_issue_def handleParameterChange_def
      calculateEmotions_settle_frame\<close>)

lemma run_stamped:
  "\<forall>m\<in>set (messages (app w)). stamped m \<Longrightarrow> \<forall>m\<in>set (messages (app (run w evs))). stamped m"
proof (induction evs arbitrary: w)
  case Nil
  then show ?case by simp
next
  case (Cons ev evs)
  from Cons.prems have "\<forall>m\<in>set (messages (app (step w ev))). stamped m"
    by (rule step_stamped)
  then have "\<forall>m\<in>set (messages (app (run (step w ev) evs))). stamped m"
    by (rule Cons.IH)
  then show ?case by simp
qed

text \<open>At most one submission is outstanding, and the busy flag says whether one is.\<close>

lemma step_consistent:
  assumes "consistent w"
  shows "consistent (step w ev)"
proof (cases ev)
  case (Submit now)
  with assms show ?thesis
    by (auto simp: consistent_def handleSubmit_begin_def Let_def)
next
  case (SendSettled i r now)
  with assms show ?thesis
    by (cases r; cases "sendCalls w") (auto simp: consistent_def without_def)
qed (use assms in \<open>simp_all add: consistent_def calculateEmotions_issue_def
      handleParameterChange_def calculateEmotions_settle_frame\<close>)

lemma run_consistent: "consistent w \<Longrightarrow> consistent (run w evs)"
proof (induction evs arbitrary: w)
  case Nil
  then show ?case by simp
next
  case (Cons ev evs)
  from Cons.prems have "consistent (step w ev)" by (rule step_consistent)
  then have "consistent (run (step w ev) evs)" by (rule Cons.IH)
  then show ?case by simp
qed

lemma initialWorld_consistent: "consistent (run initialWorld evs)"
  by (rule run_consistent)
    (simp add: consistent_def initialWorld_def initialState_def calculateEmotions_issue_def)

section \<open>Counting the entries of the log\<close>

lemma exchanges_counts:
  "length (filter fst (exchanges rs)) = length rs"
  "length (filter (\<lambda>e. \<not> fst e) (exchanges rs)) = length rs"
  by (induction rs) (simp_all add: exchanges_def)

lemma entry_counts:
  "length (filter isUser ms) = length (filter fst (map entry ms))"
  "length (filter (\<lambda>m. \<not> isUser m) ms) = length (filter (\<lambda>e. \<not> fst e) (map entry ms))"
  by (induction ms) (simp_all add: entry_def)

section \<open>Facts about the sample runs\<close>

lemma typedHi_facts:
  "idle typedHi" "inputMessage (app typedHi) = js ''hi''" "messages (app typedHi) = []"
  "emotionalState (app typedHi) = \<lparr>anger = Num 1, sadness = Num 1\<rparr>"
  "emotionCalls typedHi = [initialParameters]"
  by (simp_all add: typedHi_def idle_def initialWorld_def initialState_def
      calculateEmotions_issue_def)

section \<open>Recomputation of the emotional state\<close>

text \<open>
  C2, as stated, fails. Two parameter changes send two requests after the one of the
  first render. The response to the later request (anger 3, sadness 3) arrives first and
  the response to the earlier one (anger 2, sadness 2) arrives last: the component ends
  with the earlier request's result.
\<close>

theorem stale_response_overwrites:
  "emotionCalls (run initialWorld
      [ParameterChange Valence (Num 2), ParameterChange Valence (Num 3)]) =
     [initialParameters, initialParameters\<lparr>valence := Num 2\<rparr>,
      initialParameters\<lparr>valence := Num 3\<rparr>] \<and>
   emotionalState (app (run initialWorld
      [ParameterChange Valence (Num 2), ParameterChange Valence (Num 3),
       EmotionsSettled 2 (Body \<lparr>anger = Num 3, sadness = Num 3\<rparr>),
       EmotionsSettled 1 (Body \<lparr>anger = Num 2, sadness = Num 2\<rparr>)])) =
     \<lparr>anger = Num 2, sadness = Num 2\<rparr> \<and>
   emotionalState (app (run initialWorld
      [ParameterChange Valence (Num 2), ParameterChange Valence (Num 3),
       EmotionsSettled 2 (Body \<lparr>anger = Num 3, sadness = Num 3\<rparr>),
       EmotionsSettled 1 (Body \<lparr>anger = Num 2, sadness = Num 2\<rparr>)])) \<noteq>
     \<lparr>anger = Num 3, sadness = Num 3\<rparr>"
  by (simp add: initialWorld_def initialState_def calculateEmotions_issue_def
      handleParameterChange_def without_def)

text \<open>
  C2, amended. A request carries the parameters and nothing else, and the outstanding
  requests are kept in the order of issue. A result that arrives with success is applied
  to the emotional state whichever request it answers and whatever was applied before;
  none is discarded. So when the response to the second of two requests arrives before
  the response to the first, the component ends with the first request's result.
\<close>

theorem emotions_applied_in_arrival_order:
  "emotionCalls (step w (ParameterChange p v)) =
     emotionCalls w @ [setField p v (parameters (app w))] \<and>
   (i < length (emotionCalls w) \<longrightarrow>
      emotionalState (app (step w (EmotionsSettled i (Body d)))) = d \<and>
      emotionCalls (step w (EmotionsSettled i (Body d))) = without i (emotionCalls w)) \<and>
   emotionCalls (run w [ParameterChange p1 v1, ParameterChange p2 v2]) =
     emotionCalls w @ [setField p1 v1 (parameters (app w)),
                       setField p2 v2 (setField p1 v1 (parameters (app w)))] \<and>
   emotionalState (app (run w
      [ParameterChange p1 v1, ParameterChange p2 v2,
       EmotionsSettled (Suc (length (emotionCalls w))) (Body e2),
       EmotionsSettled (length (emotionCalls w)) (Body e1)])) = e1"
  by (simp add: calculateEmotions_issue_def handleParameterChange_def without_def)

theorem emotions_applied_in_arrival_order_witness:
  "emotionalState (app (step initialWorld
      (EmotionsSettled 0 (Body \<lparr>anger = Num 4, sadness = Num 4\<rparr>)))) =
     \<lparr>anger = Num 4, sadness = Num 4\<rparr> \<and>
   emotionCalls (step initialWorld
      (EmotionsSettled 0 (Body \<lparr>anger = Num 4, sadness = Num 4\<rparr>))) = []"
  using emotions_applied_in_arrival_order [where w = initialWorld and i = 0
      and d = "\<lparr>anger = Num 4, sadness = Num 4\<rparr>"]
  by (simp add: initialWorld_def calculateEmotions_issue_def without_def del: step.simps)

text \<open>
  C3. When a call to the recomputation service fails (the request is rejected, the
  status is not a success, or the body cannot be decoded), the settlement sets the error
  flag and changes nothing else; the part of the call before the request leaves the
  emotional state alone too. So the emotional state after the failed call is the one
  before it, in a call on its own and for any outstanding request of the component.
\<close>

theorem calculateEmotions_failure_keeps_state:
  assumes "failed r"
  shows "calculateEmotions_settle r s = s\<lparr>backendError := True\<rparr> \<and>
         emotionalState (fst (calculateEmotions_issue s0)) = emotionalState s0 \<and>
         backendError (calculateEmotions r s0) \<and>
         emotionalState (calculateEmotions r s0) = emotionalState s0 \<and>
         (i < length (emotionCalls w) \<longrightarrow>
            backendError (app (step w (EmotionsSettled i r))) \<and>
            emotionalState (app (step w (EmotionsSettled i r))) = emotionalState (app w))"
  using assms
  by (simp add: calculateEmotions_settle_failed calculateEmotions_def calculateEmotions_issue_def)

theorem calculateEmotions_failure_keeps_state_witness:
  "backendError (calculateEmotions JsonError initialState) \<and>
   emotionalState (calculateEmotions JsonError initialState) =
     \<lparr>anger = Num 1, sadness = Num 1\<rparr> \<and>
   backendError (app (step initialWorld (EmotionsSettled 0 JsonError))) \<and>
   emotionalState (app (step initialWorld (EmotionsSettled 0 JsonError))) =
     \<lparr>anger = Num 1, sadness = Num 1\<rparr>"
  using calculateEmotions_failure_keeps_state [where r = JsonError and ?s0.0 = initialState and w = initialWorld and i = 0]
  by (simp add: initialWorld_def initialState_def calculateEmotions_issue_def
      del: step.simps)

section \<open>The error flag\<close>

text \<open>
  C4, as stated, fails. The first request fails and sets the flag; a parameter change
  then sends a new request, and the flag is clear while that request is still
  outstanding and nothing has succeeded.
\<close>

theorem backendError_cleared_on_issue:
  "backendError (app (run initialWorld [EmotionsSettled 0 NetworkError])) \<and>
   \<not> backendError (app (run initialWorld
        [EmotionsSettled 0 NetworkError, ParameterChange Valence (Num 2)])) \<and>
   emotionCalls (run initialWorld
        [EmotionsSettled 0 NetworkError, ParameterChange Valence (Num 2)]) =
     [initialParameters\<lparr>valence := Num 2\<rparr>]"
  by (simp add: initialWorld_def initialState_def calculateEmotions_issue_def
      handleParameterChange_def without_def)

text \<open>
  C4, amended. The error flag is cleared at the moment a request is issued, by every
  recomputation request and by every accepted submission, before any result has arrived.
  It is set when a request fails. A request that succeeds replaces the emotional state by
  the received value, or appends the reply, and leaves the flag as it stands.
\<close>

theorem backendError_lifecycle:
  "\<not> backendError (fst (calculateEmotions_issue s)) \<and>
   \<not> backendError (app (step w (ParameterChange p v))) \<and>
   (\<not> isProcessing s \<and> trim (inputMessage s) \<noteq> [] \<longrightarrow>
      \<not> backendError (fst (handleSubmit_begin now s))) \<and>
   (failed r \<longrightarrow> backendError (calculateEmotions_settle r s)) \<and>
   (failed r' \<longrightarrow> backendError (handleSubmit_settle c r' now s)) \<and>
   backendError (calculateEmotions_settle (Body d) s) = backendError s \<and>
   emotionalState (calculateEmotions_settle (Body d) s) = d \<and>
   backendError (handleSubmit_settle c (Body d') now s) = backendError s"
  by (simp add: calculateEmotions_issue_def handleParameterChange_def handleSubmit_begin_def
      Let_def calculateEmotions_settle_failed handleSubmit_settle_failed)

theorem backendError_lifecycle_witness:
  "\<not> backendError (fst (handleSubmit_begin 5
        (initialState\<lparr>inputMessage := js ''hi'', backendError := True\<rparr>))) \<and>
   backendError (calculateEmotions_settle NotOk initialState) \<and>
   backendError (handleSubmit_settle
        \<lparr>c_inputMessage = js ''hi'', c_parameters = initialParameters,
         c_emotionalState = \<lparr>anger = Num 1, sadness = Num 1\<rparr>\<rparr> NetworkError 6 initialState)"
  using backendError_lifecycle [where s = "initialState\<lparr>inputMessage := js ''hi'', backendError := True\<rparr>"
      and now = 5]
    backendError_lifecycle [where s = initialState and r = NotOk and r' = NetworkError and now = 6
      and c = "\<lparr>c_inputMessage = js ''hi'', c_parameters = initialParameters,
         c_emotionalState = \<lparr>anger = Num 1, sadness = Num 1\<rparr>\<rparr>"]
    trim_hi
  by (simp add: initialState_def del: handleSubmit_settle.simps calculateEmotions_settle.simps)

section \<open>Submissions\<close>

text \<open>
  C5, as stated, fails. The user types and submits; while the request is outstanding the
  recomputation of the first render arrives and replaces the emotional state (anger 1,
  sadness 1) by anger 6, sadness 2; then the reply service answers with a status that is
  not a success. The fallback message carries anger 1, sadness 1, which is not the
  emotional state current when the message is appended.
\<close>

theorem fallback_snapshot_is_stale:
  "emotionalState (app (run initialWorld
     [InputChange (js ''hi''), Submit 1,
      EmotionsSettled 0 (Body \<lparr>anger = Num 6, sadness = Num 2\<rparr>)])) =
     \<lparr>anger = Num 6, sadness = Num 2\<rparr> \<and>
   messages (app (run initialWorld
     [InputChange (js ''hi''), Submit 1,
      EmotionsSettled 0 (Body \<lparr>anger = Num 6, sadness = Num 2\<rparr>),
      SendSettled 0 NotOk 2])) =
     [\<lparr>text = js ''hi'', isUser = True, timestamp = 1, Message.emotionalState = None\<rparr>,
      \<lparr>text = fallbackText, isUser = False, timestamp = 2,
       Message.emotionalState = Some \<lparr>anger = Num 1, sadness = Num 1\<rparr>\<rparr>] \<and>
   Message.emotionalState (last (messages (app (run initialWorld
     [InputChange (js ''hi''), Submit 1,
      EmotionsSettled 0 (Body \<lparr>anger = Num 6, sadness = Num 2\<rparr>),
      SendSettled 0 NotOk 2])))) \<noteq>
     Some (emotionalState (app (run initialWorld
       [InputChange (js ''hi''), Submit 1,
        EmotionsSettled 0 (Body \<lparr>anger = Num 6, sadness = Num 2\<rparr>)])))"
  using trim_hi
  by (simp add: initialWorld_def initialState_def calculateEmotions_issue_def
      handleSubmit_begin_def without_def)

text \<open>
  C5, amended. When the call to the reply service fails, the settlement sets the error
  flag, clears the busy flag and appends one assistant message with the fixed fallback
  text and the emotional state that was current when the submission was dispatched, the
  one the submitting render held. For a submission from an idle component, whatever
  happens in the background while the request is outstanding, the log ends with the
  user's message followed by that fallback message.
\<close>

theorem handleSubmit_failure_fallback:
  "(failed r \<longrightarrow>
      handleSubmit_settle c r now s =
        s\<lparr>backendError := True,
          messages := messages s @
            [\<lparr>text = fallbackText, isUser = False, timestamp = now,
              Message.emotionalState = Some (c_emotionalState c)\<rparr>],
          isProcessing := False\<rparr>) \<and>
   (failed r \<and> \<not> isProcessing s \<and> trim (inputMessage s) \<noteq> [] \<longrightarrow>
      handleSubmit t1 r t2 s =
        s\<lparr>messages := messages s @
            [\<lparr>text = inputMessage s, isUser = True, timestamp = t1,
              Message.emotionalState = None\<rparr>,
             \<lparr>text = fallbackText, isUser = False, timestamp = t2,
              Message.emotionalState = Some (emotionalState s)\<rparr>],
          inputMessage := [],
          backendError := True,
          isProcessing := False\<rparr>) \<and>
   (failed r \<and> idle w \<and> trim (inputMessage (app w)) \<noteq> [] \<and> list_all background during \<longrightarrow>
      backendError (app (run w ([Submit t1] @ during @ [SendSettled 0 r t2]))) \<and>
      \<not> isProcessing (app (run w ([Submit t1] @ during @ [SendSettled 0 r t2]))) \<and>
      messages (app (run w ([Submit t1] @ during @ [SendSettled 0 r t2]))) =
        messages (app w) @
          [\<lparr>text = inputMessage (app w), isUser = True, timestamp = t1,
            Message.emotionalState = None\<rparr>,
           \<lparr>text = fallbackText, isUser = False, timestamp = t2,
            Message.emotionalState = Some (emotionalState (app w))\<rparr>]) \<and>
   fallbackText =
     js ''I'm currently unable to process messages. Please ensure the backend server is running.''"
proof -
  have "backendError (app (run w ([Submit t1] @ during @ [SendSettled 0 r t2]))) \<and>
      \<not> isProcessing (app (run w ([Submit t1] @ during @ [SendSettled 0 r t2]))) \<and>
      messages (app (run w ([Submit t1] @ during @ [SendSettled 0 r t2]))) =
        messages (app w) @
          [\<lparr>text = inputMessage (app w), isUser = True, timestamp = t1,
            Message.emotionalState = None\<rparr>,
           \<lparr>text = fallbackText, isUser = False, timestamp = t2,
            Message.emotionalState = Some (emotionalState (app w))\<rparr>]"
    if f: "failed r" and i: "idle w" and t: "trim (inputMessage (app w)) \<noteq> []"
      and b: "list_all background during"
  proof -
    have "(case r of Body d \<Rightarrow> reply d | _ \<Rightarrow> fallbackText) = fallbackText"
      using f by (cases r) simp_all
    with turn [OF i t b, where r = r and ?t1.0 = t1 and ?t2.0 = t2] f show ?thesis
      by (simp add: idle_def del: run_append run_Cons)
  qed
  moreover have "handleSubmit t1 r t2 s =
        s\<lparr>messages := messages s @
            [\<lparr>text = inputMessage s, isUser = True, timestamp = t1,
              Message.emotionalState = None\<rparr>,
             \<lparr>text = fallbackText, isUser = False, timestamp = t2,
              Message.emotionalState = Some (emotionalState s)\<rparr>],
          inputMessage := [],
          backendError := True,
          isProcessing := False\<rparr>"
    if "failed r" and "\<not> isProcessing s" and "trim (inputMessage s) \<noteq> []"
    using that
    by (simp add: handleSubmit_def handleSubmit_begin_def Let_def handleSubmit_settle_failed)
  ultimately show ?thesis
    by (simp add: handleSubmit_settle_failed fallbackText_def del: run_append run_Cons)
qed

theorem handleSubmit_failure_fallback_witness:
  "backendError (app (run typedHi
     [Submit 1, EmotionsSettled 0 (Body \<lparr>anger = Num 6, sadness = Num 2\<rparr>),
      SendSettled 0 NotOk 2])) \<and>
   messages (app (run typedHi
     [Submit 1, EmotionsSettled 0 (Body \<lparr>anger = Num 6, sadness = Num 2\<rparr>),
      SendSettled 0 NotOk 2])) =
     [\<lparr>text = js ''hi'', isUser = True, timestamp = 1, Message.emotionalState = None\<rparr>,
      \<lparr>text = fallbackText, isUser = False, timestamp = 2,
       Message.emotionalState = Some \<lparr>anger = Num 1, sadness = Num 1\<rparr>\<rparr>] \<and>
   messages (handleSubmit 1 JsonError 2 (app typedHi)) =
     [\<lparr>text = js ''hi'', isUser = True, timestamp = 1, Message.emotionalState = None\<rparr>,
      \<lparr>text = fallbackText, isUser = False, timestamp = 2,
       Message.emotionalState = Some \<lparr>anger = Num 1, sadness = Num 1\<rparr>\<rparr>] \<and>
   backendError (handleSubmit 1 JsonError 2 (app typedHi)) \<and>
   backendError (handleSubmit_settle
     \<lparr>c_inputMessage = js ''hi'', c_parameters = initialParameters,
      c_emotionalState = \<lparr>anger = Num 1, sadness = Num 1\<rparr>\<rparr> NetworkError 2 initialState)"
proof -
  have idle: "\<not> isProcessing (app typedHi)"
    using typedHi_facts(1) by (simp add: idle_def)
  have "failed (NotOk :: ReplyData fetch_outcome)"
    and "failed (JsonError :: ReplyData fetch_outcome)"
    and "failed (NetworkError :: ReplyData fetch_outcome)"
    by simp_all
  with handleSubmit_failure_fallback [where r = NotOk and w = typedHi and ?t1.0 = 1
      and ?t2.0 = 2
      and during = "[EmotionsSettled 0 (Body \<lparr>anger = Num 6, sadness = Num 2\<rparr>)]"]
    handleSubmit_failure_fallback [where r = JsonError and s = "app typedHi" and ?t1.0 = 1
      and ?t2.0 = 2]
    handleSubmit_failure_fallback [where r = NetworkError and s = initialState and now = 2
      and c = "\<lparr>c_inputMessage = js ''hi'', c_parameters = initialParameters,
        c_emotionalState = \<lparr>anger = Num 1, sadness = Num 1\<rparr>\<rparr>"]
    typedHi_facts trim_hi idle
  show ?thesis
    by (simp del: run_append run_Cons step.simps handleSubmit_settle.simps)
qed

text \<open>The guard of the handler tests the text and the busy flag, and nothing else.\<close>

lemma handleSubmit_begin_accepted:
  assumes "\<not> isProcessing s" and "trim (inputMessage s) \<noteq> []"
  shows "handleSubmit_begin now s =
        (s\<lparr>isProcessing := True,
           messages := messages s @
             [\<lparr>text = inputMessage s, isUser = True, timestamp = now,
               Message.emotionalState = None\<rparr>],
           inputMessage := [],
           backendError := False\<rparr>,
         Some \<lparr>c_inputMessage = inputMessage s, c_parameters = parameters s,
               c_emotionalState = emotionalState s\<rparr>)"
  using assms by (simp add: handleSubmit_begin_def Let_def)

text \<open>
  C6. A submission attempted while the busy flag is set, or while the error flag is set,
  changes nothing: the log is unchanged, no request is sent to the reply service, none is
  queued, and nothing is raised. While the busy flag is set the guard of the handler
  rejects the call whatever the text; while either flag is set the form, whose input and
  button are then disabled, does not call the handler. The component has no flag that
  forces a retry, so none can be set.
\<close>

theorem submission_rejected_while_disabled:
  "(isProcessing s \<longrightarrow> handleSubmit_begin now s = (s, None)) \<and>
   (isProcessing (app w) \<longrightarrow> step w (Submit now) = w) \<and>
   (isProcessing (app w) \<or> backendError (app w) \<longrightarrow>
      submitForm now w = w \<and>
      messages (app (submitForm now w)) = messages (app w) \<and>
      sendCalls (submitForm now w) = sendCalls w)"
  by (simp add: handleSubmit_begin_def submitForm_def controlsDisabled_def)

theorem submission_rejected_while_disabled_witness:
  "handleSubmit_begin 2 (initialState\<lparr>inputMessage := js ''hi'', isProcessing := True\<rparr>) =
     (initialState\<lparr>inputMessage := js ''hi'', isProcessing := True\<rparr>, None) \<and>
   submitForm 2 (run initialWorld [InputChange (js ''hi''), Submit 1]) =
     run initialWorld [InputChange (js ''hi''), Submit 1] \<and>
   step (run initialWorld [InputChange (js ''hi''), Submit 1]) (Submit 2) =
     run initialWorld [InputChange (js ''hi''), Submit 1] \<and>
   inputMessage (app (run initialWorld
     [InputChange (js ''hi''), EmotionsSettled 0 NetworkError])) = js ''hi'' \<and>
   \<not> isProcessing (app (run initialWorld
     [InputChange (js ''hi''), EmotionsSettled 0 NetworkError])) \<and>
   submitForm 5 (run initialWorld [InputChange (js ''hi''), EmotionsSettled 0 NetworkError]) =
     run initialWorld [InputChange (js ''hi''), EmotionsSettled 0 NetworkError] \<and>
   messages (app (submitForm 5 (run initialWorld
     [InputChange (js ''hi''), EmotionsSettled 0 NetworkError]))) = [] \<and>
   sendCalls (submitForm 5 (run initialWorld
     [InputChange (js ''hi''), EmotionsSettled 0 NetworkError])) = []"
proof -
  let ?busy = "run initialWorld [InputChange (js ''hi''), Submit 1]"
  let ?failed = "run initialWorld [InputChange (js ''hi''), EmotionsSettled 0 NetworkError]"
  have busy: "isProcessing (app ?busy)"
    using trim_hi
    by (simp add: initialWorld_def initialState_def calculateEmotions_issue_def
        handleSubmit_begin_def)
  have failed: "backendError (app ?failed)" "inputMessage (app ?failed) = js ''hi''"
    "\<not> isProcessing (app ?failed)" "messages (app ?failed) = []" "sendCalls ?failed = []"
    by (simp_all add: initialWorld_def initialState_def calculateEmotions_issue_def
        without_def)
  have flag: "isProcessing (initialState\<lparr>inputMessage := js ''hi'', isProcessing := True\<rparr>)"
    by simp
  from submission_rejected_while_disabled
      [where s = "initialState\<lparr>inputMessage := js ''hi'', isProcessing := True\<rparr>" and now = 2
        and w = ?busy] flag busy
  have a: "handleSubmit_begin 2 (initialState\<lparr>inputMessage := js ''hi'', isProcessing := True\<rparr>) =
      (initialState\<lparr>inputMessage := js ''hi'', isProcessing := True\<rparr>, None)"
    and b: "submitForm 2 ?busy = ?busy" and c: "step ?busy (Submit 2) = ?busy"
    by blast+
  from submission_rejected_while_disabled [where w = ?failed and now = 5] failed(1)
  have d: "submitForm 5 ?failed = ?failed"
    and e: "messages (app (submitForm 5 ?failed)) = messages (app ?failed)"
    and f: "sendCalls (submitForm 5 ?failed) = sendCalls ?failed"
    by blast+
  from a b c d e f failed show ?thesis
    by (simp only: simp_thms)
qed

text \<open>
  C10. A submission whose text is empty or consists of white space only changes nothing,
  also when the component is idle: the handler returns the state as it is and sends no
  request, so no message is appended and the busy flag is not set.
\<close>

theorem handleSubmit_blank_noop:
  assumes "\<forall>u\<in>set (inputMessage (app w)). isWhiteSpace u"
  shows "handleSubmit_begin now (app w) = (app w, None) \<and> step w (Submit now) = w"
  using assms by (simp add: handleSubmit_begin_def trim_empty_iff)

theorem handleSubmit_blank_noop_witness:
  "step (step initialWorld (InputChange [0x20, 0x09, 0xA0, 0x3000])) (Submit 1) =
     step initialWorld (InputChange [0x20, 0x09, 0xA0, 0x3000]) \<and>
   step initialWorld (Submit 1) = initialWorld \<and>
   \<not> isProcessing (app (step initialWorld (InputChange [0x20, 0x09, 0xA0, 0x3000])))"
proof -
  have a: "\<forall>u\<in>set (inputMessage (app (step initialWorld
      (InputChange [0x20, 0x09, 0xA0, 0x3000])))). isWhiteSpace u"
    by (simp add: isWhiteSpace_def)
  have b: "\<forall>u\<in>set (inputMessage (app initialWorld)). isWhiteSpace u"
    by (simp add: initialWorld_def initialState_def calculateEmotions_issue_def)
  have c: "\<not> isProcessing (app (step initialWorld (InputChange [0x20, 0x09, 0xA0, 0x3000])))"
    by (simp add: initialWorld_def initialState_def calculateEmotions_issue_def)
  from handleSubmit_blank_noop [OF a, of 1] handleSubmit_blank_noop [OF b, of 1] c show ?thesis by blast
qed

section \<open>The conversation log\<close>

text \<open>
  C7. An accepted submission appends the user's message in the very step that sends the
  request, so the message is in the log before any result. After a sequence of
  successful submissions from an idle component, with any events in the background, the
  log is the old log followed by one user entry and one assistant entry for each
  submission, in the order of submission; the numbers of user entries and of assistant
  entries both grow by the number of submissions. No event ever changes, reorders or
  deletes an entry: the old log is a prefix of the new one.
\<close>

theorem conversation_log_interleaved:
  "(\<not> isProcessing (app w) \<and> trim (inputMessage (app w)) \<noteq> [] \<longrightarrow>
      messages (app (step w (Submit now))) =
        messages (app w) @
          [\<lparr>text = inputMessage (app w), isUser = True, timestamp = now,
            Message.emotionalState = None\<rparr>] \<and>
      sendCalls (step w (Submit now)) =
        sendCalls w @
          [\<lparr>c_inputMessage = inputMessage (app w), c_parameters = parameters (app w),
            c_emotionalState = emotionalState (app w)\<rparr>]) \<and>
   (idle w \<and> (\<forall>r\<in>set rs. wellFormed r) \<longrightarrow>
      map entry (messages (app (run w (concat (map events_of rs))))) =
        map entry (messages (app w)) @ exchanges rs \<and>
      length (filter isUser (messages (app (run w (concat (map events_of rs)))))) =
        length (filter isUser (messages (app w))) + length rs \<and>
      length (filter (\<lambda>m. \<not> isUser m) (messages (app (run w (concat (map events_of rs)))))) =
        length (filter (\<lambda>m. \<not> isUser m) (messages (app w))) + length rs) \<and>
   prefix (messages (app w)) (messages (app (run w evs)))"
proof -
  have a: "messages (app (step w (Submit now))) =
        messages (app w) @
          [\<lparr>text = inputMessage (app w), isUser = True, timestamp = now,
            Message.emotionalState = None\<rparr>] \<and>
      sendCalls (step w (Submit now)) =
        sendCalls w @
          [\<lparr>c_inputMessage = inputMessage (app w), c_parameters = parameters (app w),
            c_emotionalState = emotionalState (app w)\<rparr>]"
    if "\<not> isProcessing (app w)" and "trim (inputMessage (app w)) \<noteq> []"
    unfolding submit_accepted [OF that] by simp
  have b: "map entry (messages (app (run w (concat (map events_of rs))))) =
        map entry (messages (app w)) @ exchanges rs \<and>
      length (filter isUser (messages (app (run w (concat (map events_of rs)))))) =
        length (filter isUser (messages (app w))) + length rs \<and>
      length (filter (\<lambda>m. \<not> isUser m) (messages (app (run w (concat (map events_of rs)))))) =
        length (filter (\<lambda>m. \<not> isUser m) (messages (app w))) + length rs"
    if i: "idle w" and wf: "\<forall>r\<in>set rs. wellFormed r"
  proof -
    from wf have "\<forall>r\<in>set rs. trim (r_text r) \<noteq> [] \<and> list_all background (r_before r) \<and>
        list_all background (r_during r)"
      by (simp add: wellFormed_def)
    from rounds [OF i this]
    have m: "map entry (messages (app (run w (concat (map events_of rs))))) =
        map entry (messages (app w)) @ exchanges rs"
      by (simp add: exchanges_def)
    show ?thesis
      unfolding entry_counts m by (simp add: exchanges_counts)
  qed
  from a b run_prefix [of w evs] show ?thesis by blast
qed

theorem conversation_log_interleaved_witness:
  "map entry (messages (app (run initialWorld (concat (map events_of [firstRound, secondRound]))))) =
     [(True, js ''hi''), (False, js ''hello''), (True, js ''bye''), (False, js ''ciao'')] \<and>
   length (filter isUser
     (messages (app (run initialWorld (concat (map events_of [firstRound, secondRound])))))) = 2 \<and>
   messages (app (step typedHi (Submit 1))) =
     [\<lparr>text = js ''hi'', isUser = True, timestamp = 1, Message.emotionalState = None\<rparr>]"
proof -
  have i: "idle initialWorld" "messages (app initialWorld) = []"
    by (simp_all add: idle_def initialWorld_def initialState_def calculateEmotions_issue_def)
  have wf: "\<forall>r\<in>set [firstRound, secondRound]. wellFormed r"
    by (simp add: wellFormed_def firstRound_def secondRound_def trim_def js_def isWhiteSpace_def)
  have t: "\<not> isProcessing (app typedHi)" "trim (inputMessage (app typedHi)) \<noteq> []"
    using typedHi_facts trim_hi by (simp_all add: idle_def)
  from conversation_log_interleaved [where w = initialWorld and rs = "[firstRound, secondRound]"] i wf
  have "map entry (messages (app (run initialWorld (concat (map events_of [firstRound, secondRound]))))) =
      exchanges [firstRound, secondRound]"
    and "length (filter isUser
     (messages (app (run initialWorld (concat (map events_of [firstRound, secondRound])))))) = 2"
    by simp_all
  moreover from conversation_log_interleaved [where w = typedHi and now = 1] t typedHi_facts
  have "messages (app (step typedHi (Submit 1))) =
     [\<lparr>text = js ''hi'', isUser = True, timestamp = 1, Message.emotionalState = None\<rparr>]"
    by (simp del: step.simps)
  ultimately show ?thesis
    by (simp add: exchanges_def firstRound_def secondRound_def)
qed

text \<open>
  C9. The message appended for the user carries no snapshot. The message appended for
  the assistant, with the reply or with the fallback text, carries the emotional state
  that was current when the submission was dispatched, whatever has replaced the live
  emotional state while the request was outstanding. A settled recomputation leaves the
  log as it is, every event keeps the old log as a prefix, and in every run of the
  component an entry carries a snapshot exactly when the assistant wrote it.
\<close>

theorem snapshot_at_dispatch:
  "(\<not> isProcessing (app w) \<and> trim (inputMessage (app w)) \<noteq> [] \<longrightarrow>
      last (messages (app (step w (Submit now)))) =
        \<lparr>text = inputMessage (app w), isUser = True, timestamp = now,
         Message.emotionalState = None\<rparr>) \<and>
   (idle w \<and> trim (inputMessage (app w)) \<noteq> [] \<and> list_all background during \<longrightarrow>
      messages (app (run w ([Submit t1] @ during @ [SendSettled 0 r t2]))) =
        messages (app w) @
          [\<lparr>text = inputMessage (app w), isUser = True, timestamp = t1,
            Message.emotionalState = None\<rparr>,
           \<lparr>text = (case r of Body d \<Rightarrow> reply d | _ \<Rightarrow> fallbackText), isUser = False,
            timestamp = t2, Message.emotionalState = Some (emotionalState (app w))\<rparr>]) \<and>
   messages (app (step w (EmotionsSettled i r'))) = messages (app w) \<and>
   prefix (messages (app w)) (messages (app (run w evs))) \<and>
   ((\<forall>m\<in>set (messages (app w)). stamped m) \<longrightarrow>
      (\<forall>m\<in>set (messages (app (run w evs))). stamped m)) \<and>
   (\<forall>m\<in>set (messages (app (run initialWorld evs))). stamped m)"
proof -
  have a: "last (messages (app (step w (Submit now)))) =
        \<lparr>text = inputMessage (app w), isUser = True, timestamp = now,
         Message.emotionalState = None\<rparr>"
    if "\<not> isProcessing (app w)" and "trim (inputMessage (app w)) \<noteq> []"
    unfolding submit_accepted [OF that] by simp
  have c: "messages (app (step w (EmotionsSettled i r'))) = messages (app w)"
    by (rule background_step) simp
  have "\<forall>m\<in>set (messages (app initialWorld)). stamped m"
    by (simp add: initialWorld_def initialState_def calculateEmotions_issue_def)
  then have e: "\<forall>m\<in>set (messages (app (run initialWorld evs))). stamped m"
    by (rule run_stamped)
  from a turn(1) [of w during t1 r t2] c run_prefix [of w evs] run_stamped [of w evs] e
  show ?thesis by blast
qed

theorem snapshot_at_dispatch_witness:
  "messages (app (run typedHi
     [Submit 1, EmotionsSettled 0 (Body \<lparr>anger = Num 6, sadness = Num 2\<rparr>),
      SendSettled 0 (Body \<lparr>reply = js ''hello''\<rparr>) 2])) =
     [\<lparr>text = js ''hi'', isUser = True, timestamp = 1, Message.emotionalState = None\<rparr>,
      \<lparr>text = js ''hello'', isUser = False, timestamp = 2,
       Message.emotionalState = Some \<lparr>anger = Num 1, sadness = Num 1\<rparr>\<rparr>] \<and>
   emotionalState (app (run typedHi
     [Submit 1, EmotionsSettled 0 (Body \<lparr>anger = Num 6, sadness = Num 2\<rparr>),
      SendSettled 0 (Body \<lparr>reply = js ''hello''\<rparr>) 2])) = \<lparr>anger = Num 6, sadness = Num 2\<rparr> \<and>
   last (messages (app (step typedHi (Submit 1)))) =
     \<lparr>text = js ''hi'', isUser = True, timestamp = 1, Message.emotionalState = None\<rparr> \<and>
   list_all stamped (messages (app (run typedHi
     [Submit 1, EmotionsSettled 0 (Body \<lparr>anger = Num 6, sadness = Num 2\<rparr>),
      SendSettled 0 (Body \<lparr>reply = js ''hello''\<rparr>) 2])))"
proof -
  let ?evs = "[Submit 1, EmotionsSettled 0 (Body \<lparr>anger = Num 6, sadness = Num 2\<rparr>),
      SendSettled 0 (Body \<lparr>reply = js ''hello''\<rparr>) 2]"
  have live: "emotionalState (app (run typedHi ?evs)) = \<lparr>anger = Num 6, sadness = Num 2\<rparr>"
    using trim_hi
    by (simp add: typedHi_def initialWorld_def initialState_def calculateEmotions_issue_def
        handleSubmit_begin_def without_def)
  have idle: "\<not> isProcessing (app typedHi)"
    using typedHi_facts(1) by (simp add: idle_def)
  have old: "\<forall>m\<in>set (messages (app typedHi)). stamped m"
    using typedHi_facts(3) by simp
  note inst = snapshot_at_dispatch [where w = typedHi and ?t1.0 = 1 and ?t2.0 = 2
      and now = 1 and r = "Body \<lparr>reply = js ''hello''\<rparr>" and evs = ?evs
      and during = "[EmotionsSettled 0 (Body \<lparr>anger = Num 6, sadness = Num 2\<rparr>)]"]
  from inst old have "\<forall>m\<in>set (messages (app (run typedHi ?evs))). stamped m"
    by blast
  then have st: "list_all stamped (messages (app (run typedHi ?evs)))"
    by (simp only: list_all_iff)
  from inst typedHi_facts trim_hi idle live st show ?thesis
    by (simp del: run_append run_Cons step.simps)
qed

section \<open>The parameter store\<close>

text \<open>
  C8. A parameter change replaces the parameter record by one whose changed field is the
  given value, whatever the value (nothing clamps it), and whose other fields are the
  previous ones; no other part of the state changes. The request sent after the change
  carries that whole new record.
\<close>

theorem handleParameterChange_frame:
  "getField p (parameters (handleParameterChange p v s)) = v \<and>
   (\<forall>q. q \<noteq> p \<longrightarrow>
      getField q (parameters (handleParameterChange p v s)) = getField q (parameters s)) \<and>
   handleParameterChange p v s = s\<lparr>parameters := setField p v (parameters s)\<rparr> \<and>
   parameters (app (step w (ParameterChange p v))) = setField p v (parameters (app w)) \<and>
   last (emotionCalls (step w (ParameterChange p v))) = setField p v (parameters (app w))"
proof -
  have a: "getField p (setField p v ps) = v" for ps by (cases p) simp_all
  have b: "q \<noteq> p \<Longrightarrow> getField q (setField p v ps) = getField q ps" for q ps
    by (cases p; cases q) simp_all
  show ?thesis
    by (simp add: handleParameterChange_def calculateEmotions_issue_def a b)
qed

theorem handleParameterChange_frame_witness:
  "getField Arousal (parameters (handleParameterChange Arousal (Num 100) initialState)) = Num 100 \<and>
   getField Valence (parameters (handleParameterChange Arousal (Num 100) initialState)) = Num (9 / 2)"
proof -
  have "Valence \<noteq> Arousal" by simp
  with handleParameterChange_frame [of Arousal "Num 100" initialState]
  have "getField Arousal (parameters (handleParameterChange Arousal (Num 100) initialState)) = Num 100"
    and "getField Valence (parameters (handleParameterChange Arousal (Num 100) initialState)) =
      getField Valence (parameters initialState)"
    by blast+
  then show ?thesis by (simp add: initialState_def initialParameters_def)
qed

end
